theory Spec2Isabelle
  imports Main
begin

section \<open>The Guides component of klever-docs (src/components/Guides.tsx)\<close>

text \<open>
  The file holds a constant array \<open>guides\<close> of link descriptors and one function
  component \<open>Guides\<close>, whose body is a single JSX expression that maps the array to
  cards. The embedding has three layers:
  \<^item> the component as TypeScript types it: the array is a list of records with three
    string fields, and \<open>Guides\<close> returns an element tree;
  \<^item> the component as JavaScript runs it: the array is a value, \<open>guide.href\<close> is a
    property read that throws on \<open>undefined\<close> and \<open>null\<close>, and \<open>guides.map\<close> throws
    when \<open>guides\<close> is not an array;
  \<^item> the component as a step on the state of its module, for what a sequence of
    renders can see: the binding \<open>guides\<close> is state, and the body's reads are actions
    on it.
  \<open>Button\<close> and \<open>Heading\<close> are imported from other modules; the tree returned by
  \<open>Guides\<close> holds them as component elements with their props, not expanded.
\<close>

subsection \<open>JavaScript values and element trees\<close>

datatype jsval =
    JUndefined
  | JNull
  | JStr string
  | JNum int
  | JObj "(string \<times> jsval) list"
  | JArr "jsval list"

text \<open>A JSX tag is a host element (\<open>div\<close>, \<open>h3\<close>, \<open>p\<close>) or a component (\<open>Heading\<close>, \<open>Button\<close>).\<close>

datatype tag = Host string | Component string

text \<open>
  An element carries its tag, its \<open>key\<close> attribute when the JSX gives one, its other
  attributes in source order, and its children in source order. JSX text and
  \<open>{expression}\<close> children are values. The array that \<open>guides.map\<close> returns is the one
  child expression of the grid container; its elements are listed as the container's
  children.
\<close>

datatype node =
    Val jsval
  | Elem tag "jsval option" "(string \<times> jsval) list" "node list"

subsection \<open>The constant data (Guides.tsx, lines 4 to 27)\<close>

record GuideEntry =
  href :: string
  name :: string
  description :: string

definition guides :: "GuideEntry list" where
  "guides =
    [ \<lparr> href = ''/quickstart'',
        name = ''Klever Wallet'',
        description = ''How to integrate with Klever Wallet browser.'' \<rparr>,
      \<lparr> href = ''/transfer'',
        name = ''Transfer'',
        description = ''How to transfer with Klever Blockchain.'' \<rparr>,
      \<lparr> href = ''/errors'',
        name = ''NFT'',
        description = ''How to create a NFT.'' \<rparr>,
      \<lparr> href = ''/create-token'',
        name = ''Create Token'',
        description = ''How to create a token with Klever Blockchain.'' \<rparr> ]"

subsection \<open>The component (Guides.tsx, lines 44 to 68)\<close>

text \<open>
  The JSX of one card (lines 52 to 64), with the values of its four expressions as
  parameters, in source order: the key \<open>guide.href\<close>, \<open>guide.name\<close>,
  \<open>guide.description\<close>, and the button's \<open>guide.href\<close>.
\<close>

definition card_jsx :: "jsval \<Rightarrow> jsval \<Rightarrow> jsval \<Rightarrow> jsval \<Rightarrow> node" where
  "card_jsx k n d h =
    Elem (Host ''div'') (Some k) []
      [ Elem (Host ''h3'') None
          [(''className'', JStr ''text-sm font-semibold text-zinc-900 dark:text-white'')]
          [Val n],
        Elem (Host ''p'') None
          [(''className'', JStr ''mt-1 text-sm text-zinc-600 dark:text-zinc-400'')]
          [Val d],
        Elem (Host ''p'') None
          [(''className'', JStr ''mt-4'')]
          [ Elem (Component ''Button'') None
              [(''href'', h), (''variant'', JStr ''text''), (''arrow'', JStr ''right'')]
              [Val (JStr ''Read more'')] ] ]"

text \<open>The arrow function passed to \<open>guides.map\<close>, on a typed entry.\<close>

definition guide_card :: "GuideEntry \<Rightarrow> node" where
  "guide_card guide =
    card_jsx (JStr (href guide)) (JStr (name guide)) (JStr (description guide))
      (JStr (href guide))"

text \<open>The JSX around the cards (lines 46 to 66), with the mapped array as parameter.\<close>

definition guides_jsx :: "node list \<Rightarrow> node" where
  "guides_jsx cs =
    Elem (Host ''div'') None
      [(''className'', JStr ''my-16 xl:max-w-none'')]
      [ Elem (Component ''Heading'') None
          [(''level'', JNum 2), (''id'', JStr ''guides'')]
          [Val (JStr ''Guides'')],
        Elem (Host ''div'') None
          [(''className'', JStr ''not-prose mt-4 grid grid-cols-1 gap-8 border-t border-zinc-900/5 pt-10 dark:border-white/5 sm:grid-cols-2 xl:grid-cols-4'')]
          cs ]"

text \<open>
  \<open>Guides\<close> declares no parameter. React calls a function component with a props
  object, which the body cannot name; the model takes it and does not use it.
\<close>

definition Guides :: "jsval \<Rightarrow> node" where
  "Guides props = guides_jsx (map guide_card guides)"

subsection \<open>The component at run time\<close>

text \<open>The one kind of exception that evaluating the body can throw.\<close>

datatype error = TypeError

text \<open>The value of the array literal of lines 4 to 27.\<close>

definition entry_obj :: "GuideEntry \<Rightarrow> jsval" where
  "entry_obj g =
    JObj [(''href'', JStr (href g)), (''name'', JStr (name g)),
          (''description'', JStr (description g))]"

definition guides_value :: jsval where
  "guides_value = JArr (map entry_obj guides)"

text \<open>
  Reading a property: \<open>undefined\<close> and \<open>null\<close> throw; an object, listed by its own
  properties with each name once, gives the value of the property, or \<open>undefined\<close>
  when it has none of that name. Strings, numbers and
  arrays have no property called \<open>href\<close>, \<open>name\<close> or \<open>description\<close>, the only names
  this file reads, so a read on them gives \<open>undefined\<close>.
\<close>

fun get_prop :: "jsval \<Rightarrow> string \<Rightarrow> error + jsval" where
  "get_prop JUndefined k = Inl TypeError"
| "get_prop JNull k = Inl TypeError"
| "get_prop (JObj kvs) k = Inr (case map_of kvs k of Some v \<Rightarrow> v | None \<Rightarrow> JUndefined)"
| "get_prop v k = Inr JUndefined"

text \<open>
  The arrow function at run time: four property reads on the same value \<open>guide\<close>,
  then the card. A read throws only when \<open>guide\<close> is \<open>undefined\<close> or \<open>null\<close>, and then
  each of the four does, so the outcome does not depend on which is evaluated first.
\<close>

definition guide_card_rt :: "jsval \<Rightarrow> error + node" where
  "guide_card_rt guide =
    (case get_prop guide ''href'' of Inl e \<Rightarrow> Inl e | Inr k \<Rightarrow>
     case get_prop guide ''name'' of Inl e \<Rightarrow> Inl e | Inr n \<Rightarrow>
     case get_prop guide ''description'' of Inl e \<Rightarrow> Inl e | Inr d \<Rightarrow>
     case get_prop guide ''href'' of Inl e \<Rightarrow> Inl e | Inr h \<Rightarrow>
       Inr (card_jsx k n d h))"

text \<open>\<open>Array.prototype.map\<close> with a callback that may throw: the first throw ends the call.\<close>

fun map_rt :: "('a \<Rightarrow> error + 'b) \<Rightarrow> 'a list \<Rightarrow> error + 'b list" where
  "map_rt f [] = Inr []"
| "map_rt f (x # xs) =
    (case f x of Inl e \<Rightarrow> Inl e | Inr y \<Rightarrow>
     case map_rt f xs of Inl e \<Rightarrow> Inl e | Inr ys \<Rightarrow> Inr (y # ys))"

text \<open>\<open>guides.map(...)\<close>: a value that is not an array has no callable \<open>map\<close>.\<close>

fun js_map :: "jsval \<Rightarrow> (jsval \<Rightarrow> error + node) \<Rightarrow> error + node list" where
  "js_map (JArr xs) f = map_rt f xs"
| "js_map v f = Inl TypeError"

definition Guides_rt :: "jsval \<Rightarrow> error + node" where
  "Guides_rt props =
    (case js_map guides_value guide_card_rt of
       Inl e \<Rightarrow> Inl e
     | Inr cs \<Rightarrow> Inr (guides_jsx cs))"

subsection \<open>The component as a step on the module's state\<close>

text \<open>
  The module's state is what the body can read besides its argument: the value bound
  to the module-level \<open>guides\<close>. The binding is not exported.
\<close>

record module_state =
  guides_binding :: jsval

text \<open>The state after the module is loaded: \<open>guides\<close> holds the array literal.\<close>

definition module_init :: module_state where
  "module_init = \<lparr> guides_binding = guides_value \<rparr>"

text \<open>
  An action takes the state and gives a value or a throw, and the state after it.
  Sequencing stops at the first throw.
\<close>

type_synonym 'a action = "module_state \<Rightarrow> (error + 'a) \<times> module_state"

definition unit_st :: "'a \<Rightarrow> 'a action" where
  "unit_st x s = (Inr x, s)"

definition bind_st :: "'a action \<Rightarrow> ('a \<Rightarrow> 'b action) \<Rightarrow> 'b action" where
  "bind_st a f s = (case a s of (Inl e, s') \<Rightarrow> (Inl e, s') | (Inr x, s') \<Rightarrow> f x s')"

text \<open>The two reads of the body: the binding \<open>guides\<close>, and a property of a value.\<close>

definition read_guides :: "jsval action" where
  "read_guides s = (Inr (guides_binding s), s)"

definition read_prop :: "jsval \<Rightarrow> string \<Rightarrow> jsval action" where
  "read_prop v k s = (get_prop v k, s)"

text \<open>The arrow function, \<open>guides.map\<close> and the body of \<open>Guides\<close> as actions.\<close>

definition guide_card_st :: "jsval \<Rightarrow> node action" where
  "guide_card_st guide =
    bind_st (read_prop guide ''href'') (\<lambda>k.
    bind_st (read_prop guide ''name'') (\<lambda>n.
    bind_st (read_prop guide ''description'') (\<lambda>d.
    bind_st (read_prop guide ''href'') (\<lambda>h.
    unit_st (card_jsx k n d h)))))"

fun map_st :: "('a \<Rightarrow> 'b action) \<Rightarrow> 'a list \<Rightarrow> 'b list action" where
  "map_st f [] = unit_st []"
| "map_st f (x # xs) =
    bind_st (f x) (\<lambda>y. bind_st (map_st f xs) (\<lambda>ys. unit_st (y # ys)))"

fun js_map_st :: "jsval \<Rightarrow> (jsval \<Rightarrow> node action) \<Rightarrow> node list action" where
  "js_map_st (JArr xs) f = map_st f xs"
| "js_map_st v f = (\<lambda>s. (Inl TypeError, s))"

definition Guides_step :: "jsval \<Rightarrow> node action" where
  "Guides_step props =
    bind_st read_guides (\<lambda>g.
    bind_st (js_map_st g guide_card_st) (\<lambda>cs.
    unit_st (guides_jsx cs)))"

text \<open>A sequence of renders, one per props object, each from the state the last one left.\<close>

fun renders :: "module_state \<Rightarrow> jsval list \<Rightarrow> (error + node) list \<times> module_state" where
  "renders s [] = ([], s)"
| "renders s (p # ps) =
    (case Guides_step p s of (r, s') \<Rightarrow>
     case renders s' ps of (rs, s'') \<Rightarrow> (r # rs, s''))"

subsection \<open>Reading an element tree\<close>

fun elem_children :: "node \<Rightarrow> node list" where
  "elem_children (Val v) = []"
| "elem_children (Elem t k ps cs) = cs"

fun elem_key :: "node \<Rightarrow> jsval option" where
  "elem_key (Val v) = None"
| "elem_key (Elem t k ps cs) = k"

fun get_attr :: "string \<Rightarrow> node \<Rightarrow> jsval option" where
  "get_attr a (Val v) = None"
| "get_attr a (Elem t k ps cs) = map_of ps a"

fun del_attr :: "string \<Rightarrow> node \<Rightarrow> node" where
  "del_attr a (Val v) = Val v"
| "del_attr a (Elem t k ps cs) = Elem t k (filter (\<lambda>kv. fst kv \<noteq> a) ps) cs"

text \<open>All elements of a tree with a given tag, in document order.\<close>

fun find_elems :: "tag \<Rightarrow> node \<Rightarrow> node list" where
  "find_elems t (Val v) = []"
| "find_elems t (Elem t' k ps cs) =
    (if t' = t then [Elem t' k ps cs] else []) @ concat (map (find_elems t) cs)"

text \<open>Decimal digits of a natural number, as a number child is displayed.\<close>

fun digits :: "nat \<Rightarrow> string" where
  "digits n =
    (if n < 10 then [char_of (48 + n)]
     else digits (n div 10) @ [char_of (48 + n mod 10)])"

declare digits.simps [simp del]

text \<open>
  The text a value shows as a child: a string shows itself, a number its decimal
  form, \<open>undefined\<close> and \<open>null\<close> nothing. Objects are not valid children and arrays of
  values show their elements; neither occurs as a child here, and both show nothing
  in this reading.
\<close>

fun val_text :: "jsval \<Rightarrow> string" where
  "val_text (JStr s) = s"
| "val_text (JNum i) = (if i < 0 then CHR ''-'' # digits (nat (- i)) else digits (nat i))"
| "val_text v = []"

text \<open>The visible text of a tree: the text of its value leaves, in document order.\<close>

fun text_of :: "node \<Rightarrow> string" where
  "text_of (Val v) = val_text v"
| "text_of (Elem t k ps cs) = concat (map text_of cs)"

text \<open>Splitting a string at a separator; used for class lists and for routes.\<close>

fun split_on :: "char \<Rightarrow> string \<Rightarrow> string list" where
  "split_on d [] = [[]]"
| "split_on d (c # cs) =
    (if c = d then [] # split_on d cs
     else (case split_on d cs of [] \<Rightarrow> [[c]] | w # ws \<Rightarrow> (c # w) # ws))"

text \<open>An element has a class when the token is in its space-separated \<open>className\<close>.\<close>

definition has_class :: "string \<Rightarrow> node \<Rightarrow> bool" where
  "has_class tok n =
    (case get_attr ''className'' n of
       Some (JStr s) \<Rightarrow> tok \<in> set (split_on CHR '' '' s)
     | _ \<Rightarrow> False)"

text \<open>The cards of an output tree: the children of the grid containers under the root.\<close>

definition cards :: "node \<Rightarrow> node list" where
  "cards t = concat (map elem_children (filter (has_class ''grid'') (elem_children t)))"

text \<open>
  What a card shows: the text of its one \<open>h3\<close> heading, the text of its first
  paragraph, and its one \<open>Button\<close> with that button's \<open>href\<close>.
\<close>

definition card_title :: "node \<Rightarrow> string option" where
  "card_title c =
    (case find_elems (Host ''h3'') c of [h] \<Rightarrow> Some (text_of h) | _ \<Rightarrow> None)"

definition card_body :: "node \<Rightarrow> string option" where
  "card_body c =
    (case find_elems (Host ''p'') c of [] \<Rightarrow> None | b # bs \<Rightarrow> Some (text_of b))"

definition card_link :: "node \<Rightarrow> node option" where
  "card_link c =
    (case find_elems (Component ''Button'') c of [b] \<Rightarrow> Some b | _ \<Rightarrow> None)"

definition card_target :: "node \<Rightarrow> jsval option" where
  "card_target c =
    (case card_link c of None \<Rightarrow> None | Some b \<Rightarrow> get_attr ''href'' b)"

text \<open>A card shows an entry when its title, body and link target are the entry's.\<close>

definition shows_entry :: "GuideEntry \<Rightarrow> node \<Rightarrow> bool" where
  "shows_entry g c =
    (card_title c = Some (name g) \<and> card_body c = Some (description g)
     \<and> card_target c = Some (JStr (href g)))"

text \<open>A node is a card when it has a title, a body and a link with a target.\<close>

definition is_card :: "node \<Rightarrow> bool" where
  "is_card c = (card_title c \<noteq> None \<and> card_body c \<noteq> None \<and> card_target c \<noteq> None)"

text \<open>The positions of a list of nodes at which the node shows a given entry.\<close>

definition positions_showing :: "GuideEntry \<Rightarrow> node list \<Rightarrow> nat list" where
  "positions_showing g cs = filter (\<lambda>j. shows_entry g (cs ! j)) [0..<length cs]"

text \<open>\<open>before a b xs\<close>: some occurrence of \<open>a\<close> in \<open>xs\<close> has an occurrence of \<open>b\<close> after it.\<close>

fun before :: "'a \<Rightarrow> 'a \<Rightarrow> 'a list \<Rightarrow> bool" where
  "before a b [] = False"
| "before a b (x # xs) = ((x = a \<and> b \<in> set xs) \<or> before a b xs)"

subsection \<open>The data-model invariant\<close>

text \<open>
  A relative route is read as a path from the site root: \<open>/\<close> alone, or a \<open>/\<close>
  followed by segments separated by single \<open>/\<close>, each segment a non-empty run of
  letters, digits, \<open>-\<close> and \<open>_\<close>. Whether a page exists at the route is a matter of the
  site's pages, not of this file.
\<close>

definition route_char :: "char \<Rightarrow> bool" where
  "route_char c =
    (c \<in> set ''abcdefghijklmnopqrstuvwxyzABCDEFGHIJKLMNOPQRSTUVWXYZ0123456789-_'')"

definition route_segment :: "string \<Rightarrow> bool" where
  "route_segment s = (s \<noteq> [] \<and> list_all route_char s)"

definition valid_route :: "string \<Rightarrow> bool" where
  "valid_route h =
    (h = ''/'' \<or>
     (case split_on CHR ''/'' h of
        [] \<Rightarrow> False
      | s # segs \<Rightarrow> s = [] \<and> segs \<noteq> [] \<and> list_all route_segment segs))"

text \<open>Display text is non-empty and not made of spaces only.\<close>

definition display_text :: "string \<Rightarrow> bool" where
  "display_text s = (s \<noteq> [] \<and> list_ex (\<lambda>c. c \<noteq> CHR '' '') s)"

definition entry_ok :: "GuideEntry \<Rightarrow> bool" where
  "entry_ok g = (valid_route (href g) \<and> display_text (name g) \<and> display_text (description g))"

section \<open>Properties\<close>

subsection \<open>Shared facts\<close>

lemma guide_card_title: "card_title (guide_card g) = Some (name g)"
  by (simp add: card_title_def guide_card_def card_jsx_def)

lemma guide_card_body: "card_body (guide_card g) = Some (description g)"
  by (simp add: card_body_def guide_card_def card_jsx_def)

lemma guide_card_link:
  "card_link (guide_card g) =
    Some (Elem (Component ''Button'') None
            [(''href'', JStr (href g)), (''variant'', JStr ''text''), (''arrow'', JStr ''right'')]
            [Val (JStr ''Read more'')])"
  by (simp add: card_link_def guide_card_def card_jsx_def)

lemma guide_card_target: "card_target (guide_card g) = Some (JStr (href g))"
  by (simp add: card_target_def guide_card_link)

lemma guide_card_key: "elem_key (guide_card g) = Some (JStr (href g))"
  by (simp add: guide_card_def card_jsx_def)

lemma shows_entry_guide_card:
  "shows_entry g (guide_card g') =
    (name g' = name g \<and> description g' = description g \<and> href g' = href g)"
  by (simp add: shows_entry_def guide_card_title guide_card_body guide_card_target)

lemma grid_has_class:
  "has_class ''grid'' (Elem (Host ''div'') None
     [(''className'', JStr ''not-prose mt-4 grid grid-cols-1 gap-8 border-t border-zinc-900/5 pt-10 dark:border-white/5 sm:grid-cols-2 xl:grid-cols-4'')]
     cs)"
  by (simp add: has_class_def)

lemma heading_no_class: "\<not> has_class tok (Elem (Component ''Heading'') k
     [(''level'', JNum 2), (''id'', JStr ''guides'')] cs)"
  by (simp add: has_class_def)

lemma cards_guides_jsx: "cards (guides_jsx cs) = cs"
  unfolding cards_def guides_jsx_def
  by (simp add: grid_has_class heading_no_class)

lemma cards_Guides: "cards (Guides props) = map guide_card guides"
  by (simp add: Guides_def cards_guides_jsx)

lemma guides_distinct_fields: "distinct (map href guides)"
  by (simp add: guides_def)

lemma shows_entry_count:
  "distinct (map href gs) \<Longrightarrow> g \<in> set gs \<Longrightarrow>
   length (filter (shows_entry g) (map guide_card gs)) = 1"
proof (induction gs)
  case Nil
  then show ?case by simp
next
  case (Cons a gs)
  show ?case
  proof (cases "g = a")
    case True
    have "href g \<notin> href ` set gs" using Cons.prems(1) True by simp
    then have "filter (shows_entry g) (map guide_card gs) = []"
      by (auto simp add: filter_empty_conv shows_entry_guide_card image_iff)
    then show ?thesis using True by (simp add: shows_entry_guide_card)
  next
    case False
    then have in_gs: "g \<in> set gs" using Cons.prems(2) by simp
    have "href a \<noteq> href g" using Cons.prems(1) in_gs by auto
    then have "\<not> shows_entry g (guide_card a)" by (simp add: shows_entry_guide_card)
    then show ?thesis using Cons.IH Cons.prems(1) in_gs by simp
  qed
qed

lemma before_in_set: "before a b xs \<Longrightarrow> a \<in> set xs \<and> b \<in> set xs"
  by (induction xs) auto

lemma before_adjacent:
  "distinct xs \<Longrightarrow> i + 1 < length xs \<Longrightarrow>
   before (xs ! i) (xs ! (i + 1)) xs \<and> \<not> before (xs ! (i + 1)) (xs ! i) xs"
proof (induction xs arbitrary: i)
  case Nil
  then show ?case by simp
next
  case (Cons x xs)
  show ?case
  proof (cases i)
    case 0
    have "xs ! 0 \<in> set xs" using Cons.prems(2) 0 by simp
    moreover have "\<not> before (xs ! 0) x xs"
      using before_in_set [of "xs ! 0" x xs] Cons.prems(1) by auto
    ultimately show ?thesis using 0 Cons.prems(1) by auto
  next
    case (Suc j)
    then have j: "j + 1 < length xs" using Cons.prems(2) by simp
    have ih: "before (xs ! j) (xs ! (j + 1)) xs \<and> \<not> before (xs ! (j + 1)) (xs ! j) xs"
      using Cons.IH [of j] Cons.prems(1) j by simp
    have "x \<noteq> xs ! (j + 1)" using Cons.prems(1) j by auto
    then show ?thesis using ih Suc by simp
  qed
qed

lemma guide_card_inj: "inj guide_card"
  by (rule injI) (simp add: guide_card_def card_jsx_def)

lemma cards_distinct: "distinct (map guide_card guides)"
  using guides_distinct_fields
  by (simp add: distinct_map guide_card_inj inj_on_def guide_card_def card_jsx_def)

lemma guide_card_no_heading: "find_elems (Component ''Heading'') (guide_card g) = []"
  by (simp add: guide_card_def card_jsx_def)

lemma cards_no_heading:
  "concat (map (find_elems (Component ''Heading'')) (map guide_card gs)) = []"
  by (induction gs) (simp_all add: guide_card_no_heading)

text \<open>On the object of a typed entry, the run-time arrow function returns the typed card.\<close>

lemma guide_card_rt_entry: "guide_card_rt (entry_obj g) = Inr (guide_card g)"
  by (simp add: guide_card_rt_def entry_obj_def guide_card_def)

lemma map_rt_entries: "map_rt guide_card_rt (map entry_obj gs) = Inr (map guide_card gs)"
  by (induction gs) (simp_all add: guide_card_rt_entry)

text \<open>The run-time layer does have throwing inputs: an \<open>undefined\<close> array element is one.\<close>

lemma guide_card_rt_undefined: "guide_card_rt JUndefined = Inl TypeError"
  by (simp add: guide_card_rt_def)

lemma map_rt_undefined:
  "map_rt guide_card_rt [entry_obj g, JUndefined] = Inl TypeError"
  by (simp add: guide_card_rt_entry guide_card_rt_undefined)

lemma guide_card_is_card: "is_card (guide_card g)"
  by (simp add: is_card_def guide_card_title guide_card_body guide_card_target)

lemma cards_show_entries: "list_all2 shows_entry gs (map guide_card gs)"
  by (simp add: list_all2_map2 shows_entry_guide_card list_all2_same)

lemma filter_is_card: "filter is_card (map guide_card gs) = map guide_card gs"
  by (simp add: guide_card_is_card)

lemma guide_card_h3: "length (find_elems (Host ''h3'') (guide_card g)) = 1"
  by (simp add: guide_card_def card_jsx_def)

lemma guide_card_button: "length (find_elems (Component ''Button'') (guide_card g)) = 1"
  by (simp add: guide_card_def card_jsx_def)

lemma count_in_cards:
  "(\<And>g. length (find_elems t (guide_card g)) = 1) \<Longrightarrow>
   length (concat (map (find_elems t) (map guide_card gs))) = length gs"
  by (induction gs) simp_all

lemma guides_h3_count: "length (find_elems (Host ''h3'') (Guides props)) = length guides"
  using count_in_cards [of "Host ''h3''" guides, OF guide_card_h3]
  by (simp add: Guides_def guides_jsx_def)

lemma guides_button_count:
  "length (find_elems (Component ''Button'') (Guides props)) = length guides"
  using count_in_cards [of "Component ''Button''" guides, OF guide_card_button]
  by (simp add: Guides_def guides_jsx_def)

lemma filter_eq_index: "filter (\<lambda>j. j = i) [0..<n] = (if i < n then [i] else [])"
  by (induction n) auto

lemma positions_showing_nth:
  assumes d: "distinct (map href gs)" and i: "i < length gs"
  shows "positions_showing (gs ! i) (map guide_card gs) = [i]"
proof -
  have "shows_entry (gs ! i) (map guide_card gs ! j) = (j = i)" if j: "j < length gs" for j
  proof
    assume "shows_entry (gs ! i) (map guide_card gs ! j)"
    then have "href (gs ! j) = href (gs ! i)" using j by (simp add: shows_entry_guide_card)
    then have "map href gs ! j = map href gs ! i" using i j by simp
    moreover have "j < length (map href gs)" "i < length (map href gs)" using i j by simp_all
    ultimately show "j = i" using d nth_eq_iff_index_eq [of "map href gs" j i] by blast
  next
    assume "j = i"
    then show "shows_entry (gs ! i) (map guide_card gs ! j)"
      using i by (simp add: shows_entry_guide_card)
  qed
  then have "filter (\<lambda>j. shows_entry (gs ! i) (map guide_card gs ! j)) [0..<length gs]
      = filter (\<lambda>j. j = i) [0..<length gs]"
    by (intro filter_cong) auto
  then show ?thesis using i by (simp add: positions_showing_def filter_eq_index)
qed

subsection \<open>Reads leave the state as it is\<close>

lemma unit_st_state: "snd (unit_st x s) = s"
  by (simp add: unit_st_def)

lemma bind_st_state:
  assumes a: "snd (a s) = s" and f: "\<And>x. snd (f x s) = s"
  shows "snd (bind_st a f s) = s"
proof (cases "a s")
  case (Pair r s')
  then have "s' = s" using a by simp
  then show ?thesis using Pair f by (cases r) (simp_all add: bind_st_def)
qed

lemma read_prop_state: "snd (read_prop v k s) = s"
  by (simp add: read_prop_def)

lemma guide_card_st_state: "snd (guide_card_st guide s) = s"
  unfolding guide_card_st_def
  by (intro bind_st_state read_prop_state unit_st_state)

lemma map_st_state:
  assumes f: "\<And>x. snd (f x s) = s"
  shows "snd (map_st f xs s) = s"
proof (induction xs)
  case Nil
  then show ?case by (simp add: unit_st_state)
next
  case (Cons x xs)
  show ?case
    unfolding map_st.simps
    by (intro bind_st_state f Cons.IH unit_st_state)
qed

lemma js_map_st_state: "snd (js_map_st v guide_card_st s) = s"
  by (cases v) (simp_all add: map_st_state guide_card_st_state)

lemma Guides_step_state: "snd (Guides_step props s) = s"
  unfolding Guides_step_def
  by (intro bind_st_state js_map_st_state unit_st_state) (simp add: read_guides_def)

lemma Guides_step_props: "Guides_step props = Guides_step props'"
  by (simp add: Guides_step_def)

lemma renders_any_state:
  "renders s ps = (replicate (length ps) (fst (Guides_step props s)), s)"
proof (induction ps)
  case Nil
  then show ?case by simp
next
  case (Cons p ps)
  have "Guides_step p s = (fst (Guides_step props s), s)"
    using Guides_step_state [of p s] Guides_step_props [of p props]
    by (simp add: prod_eq_iff)
  then show ?case using Cons.IH by simp
qed

text \<open>Read without a throw, the state-passing arrow function is the run-time one.\<close>

lemma guide_card_st_rt: "guide_card_st guide s = (guide_card_rt guide, s)"
  by (cases guide)
    (simp_all add: guide_card_st_def guide_card_rt_def bind_st_def read_prop_def unit_st_def
      split: option.splits)

lemma map_st_rt: "map_st guide_card_st xs s = (map_rt guide_card_rt xs, s)"
  by (induction xs)
    (simp_all add: unit_st_def bind_st_def guide_card_st_rt split: sum.splits)

lemma Guides_step_init: "Guides_step props module_init = (Guides_rt props, module_init)"
  by (simp add: Guides_step_def Guides_rt_def bind_st_def read_guides_def unit_st_def
      module_init_def guides_value_def map_st_rt split: sum.splits)

lemma Guides_rt_value: "Guides_rt props = Inr (Guides props')"
  by (simp add: Guides_rt_def guides_value_def map_rt_entries Guides_def)

text \<open>The result of a render does depend on the state it reads.\<close>

lemma Guides_step_reads_binding:
  "fst (Guides_step props \<lparr> guides_binding = JArr [] \<rparr>) = Inr (guides_jsx []) \<and>
   fst (Guides_step props \<lparr> guides_binding = JArr [] \<rparr>) \<noteq> fst (Guides_step props module_init)"
proof -
  have e: "fst (Guides_step props \<lparr> guides_binding = JArr [] \<rparr>) = Inr (guides_jsx [])"
    by (simp add: Guides_step_def bind_st_def read_guides_def unit_st_def)
  have "guides_jsx [] \<noteq> Guides props"
    by (simp add: Guides_def guides_jsx_def guides_def)
  then show ?thesis using e by (simp add: Guides_step_init Guides_rt_value [of props props])
qed

lemma Guides_step_can_throw:
  "fst (Guides_step props \<lparr> guides_binding = JUndefined \<rparr>) = Inl TypeError"
  by (simp add: Guides_step_def bind_st_def read_guides_def)

subsection \<open>One card per entry\<close>

text \<open>
  C1. The cards in the output of \<open>Guides\<close> are the map of the fixed list through the
  card function, in one pass, nothing filtered, sorted or removed; and for every entry
  of the list exactly one card of the output has the entry's name as heading text,
  its description as body text and its href as the target of its link control.
\<close>

theorem guides_cards_one_per_entry:
  "cards (Guides props) = map guide_card guides \<and>
   (\<forall>g \<in> set guides. length (filter (shows_entry g) (cards (Guides props))) = 1)"
  using shows_entry_count [OF guides_distinct_fields]
  by (simp add: cards_Guides)

theorem guides_cards_one_per_entry_witness:
  "guides ! 0 \<in> set guides \<and>
   length (filter (shows_entry (guides ! 0)) (cards (Guides JUndefined))) = 1"
proof -
  have m: "guides ! 0 \<in> set guides" by (simp add: guides_def)
  from guides_cards_one_per_entry [of JUndefined] m show ?thesis by blast
qed

text \<open>
  C2. The output of \<open>Guides\<close> has as many cards as the fixed list has entries, and
  that number is 4: the grid has 4 children, each of the 4 is a card (it has a title,
  a body and a link target), the card at each position shows the entry at that
  position, and the whole tree holds 4 \<open>h3\<close> headings and 4 \<open>Button\<close>s, none outside
  the cards.
\<close>

theorem guides_card_count:
  "length (cards (Guides props)) = length guides \<and> length guides = 4 \<and>
   length (filter is_card (cards (Guides props))) = 4 \<and>
   list_all2 shows_entry guides (cards (Guides props)) \<and>
   length (find_elems (Host ''h3'') (Guides props)) = 4 \<and>
   length (find_elems (Component ''Button'') (Guides props)) = 4"
proof -
  have n: "length guides = 4" by (simp add: guides_def)
  show ?thesis
    using n guides_h3_count [of props] guides_button_count [of props]
    by (simp add: cards_Guides filter_is_card cards_show_entries)
qed

subsection \<open>Order\<close>

text \<open>
  C3. For adjacent indices \<open>i\<close> and \<open>i + 1\<close> of the fixed list, the one position of
  the output whose card shows entry \<open>i\<close> (by its title, body and link target) is
  \<open>i\<close>, and the one position whose card shows entry \<open>i + 1\<close> is \<open>i + 1\<close>: the card of
  entry \<open>i\<close> comes before the card of entry \<open>i + 1\<close>, and nowhere after it.
\<close>

theorem guides_render_order:
  "i + 1 < length guides \<Longrightarrow>
   positions_showing (guides ! i) (cards (Guides props)) = [i] \<and>
   positions_showing (guides ! (i + 1)) (cards (Guides props)) = [i + 1] \<and>
   shows_entry (guides ! i) (cards (Guides props) ! i) \<and>
   shows_entry (guides ! (i + 1)) (cards (Guides props) ! (i + 1)) \<and>
   cards (Guides props) ! i = guide_card (guides ! i) \<and>
   cards (Guides props) ! (i + 1) = guide_card (guides ! (i + 1)) \<and>
   before (guide_card (guides ! i)) (guide_card (guides ! (i + 1))) (cards (Guides props)) \<and>
   \<not> before (guide_card (guides ! (i + 1))) (guide_card (guides ! i)) (cards (Guides props))"
  using before_adjacent [OF cards_distinct, of i]
    positions_showing_nth [OF guides_distinct_fields, of i]
    positions_showing_nth [OF guides_distinct_fields, of "i + 1"]
  by (simp add: cards_Guides shows_entry_guide_card)

theorem guides_render_order_witness:
  "(2::nat) + 1 < length guides \<and>
   positions_showing (guides ! 2) (cards (Guides JNull)) = [2] \<and>
   positions_showing (guides ! (2 + 1)) (cards (Guides JNull)) = [2 + 1] \<and>
   before (guide_card (guides ! 2)) (guide_card (guides ! (2 + 1))) (cards (Guides JNull)) \<and>
   \<not> before (guide_card (guides ! (2 + 1))) (guide_card (guides ! 2)) (cards (Guides JNull))"
proof -
  have h: "(2::nat) + 1 < length guides" by (simp add: guides_def)
  from guides_render_order [OF h, of JNull] h show ?thesis by blast
qed

subsection \<open>Determinism\<close>

text \<open>
  C4. From any state of the module, any sequence of renders, whatever props object
  each is called with, gives the same result every time and leaves the state as it
  was: the body reads the binding \<open>guides\<close> and writes nothing. From the state after
  loading, that result is the tree of the typed component, whose cards show the
  entries of the list in order.
\<close>

theorem guides_deterministic:
  "renders s ps = (replicate (length ps) (fst (Guides_step props s)), s) \<and>
   fst (Guides_step props module_init) = Inr (Guides props') \<and>
   list_all2 shows_entry guides (cards (Guides props')) \<and>
   Guides props = Guides props' \<and> Guides_rt props = Guides_rt props'"
proof -
  have a: "renders s ps = (replicate (length ps) (fst (Guides_step props s)), s)"
    by (rule renders_any_state)
  have b: "fst (Guides_step props module_init) = Inr (Guides props')"
    by (simp add: Guides_step_init Guides_rt_value [of props props'])
  have c: "Guides props = Guides props'" by (simp add: Guides_def)
  have d: "Guides_rt props = Guides_rt props'" by (simp add: Guides_rt_def)
  have e: "list_all2 shows_entry guides (cards (Guides props'))"
    by (simp add: cards_Guides cards_show_entries)
  from a b c d e show ?thesis by blast
qed

subsection \<open>The entries\<close>

text \<open>
  C5. Every entry of the fixed list has a href that is a relative route (a path from
  the site root, in the reading of \<open>valid_route\<close>) and a name and a description that
  are non-empty display text.
\<close>

theorem guides_entries_ok: "\<forall>g \<in> set guides. entry_ok g"
  by (simp add: guides_def entry_ok_def valid_route_def route_segment_def route_char_def
      display_text_def)

theorem guides_entries_ok_witness: "guides ! 3 \<in> set guides \<and> entry_ok (guides ! 3)"
proof -
  have m: "guides ! 3 \<in> set guides" by (simp add: guides_def)
  from guides_entries_ok m show ?thesis by blast
qed

subsection \<open>Shape of the output\<close>

text \<open>
  C6. The root of the output has two children: a \<open>Heading\<close> element, the only one in
  the whole tree, with visible text "Guides", followed by a container of class
  \<open>grid\<close>. Every child of the container is a card, and the child at each position
  shows the entry at that position of the fixed list.
\<close>

theorem guides_tree_shape:
  "\<exists>h g. elem_children (Guides props) = [h, g] \<and>
     find_elems (Component ''Heading'') (Guides props) = [h] \<and>
     text_of h = ''Guides'' \<and>
     has_class ''grid'' g \<and>
     list_all2 shows_entry guides (elem_children g) \<and>
     list_all is_card (elem_children g) \<and>
     elem_children g = map guide_card guides \<and>
     cards (Guides props) = elem_children g"
  using cards_no_heading [of guides]
  by (simp add: Guides_def guides_jsx_def grid_has_class cards_show_entries
      list_all_iff guide_card_is_card
      cards_Guides [unfolded Guides_def guides_jsx_def])

text \<open>
  C7. The entry with href "/transfer", name "Transfer" and description "How to
  transfer with Klever Blockchain." is in the fixed list, and the output has a card
  with title "Transfer", body "How to transfer with Klever Blockchain." and a control
  labelled "Read more" whose target is "/transfer".
\<close>

theorem guides_transfer_card:
  "\<lparr> href = ''/transfer'', name = ''Transfer'',
      description = ''How to transfer with Klever Blockchain.'' \<rparr> \<in> set guides \<and>
   (\<exists>c. c \<in> set (cards (Guides props)) \<and>
     card_title c = Some ''Transfer'' \<and>
     card_body c = Some ''How to transfer with Klever Blockchain.'' \<and>
     (\<exists>b. card_link c = Some b \<and> text_of b = ''Read more'' \<and>
          get_attr ''href'' b = Some (JStr ''/transfer'')))"
proof -
  let ?e = "\<lparr> href = ''/transfer'', name = ''Transfer'',
      description = ''How to transfer with Klever Blockchain.'' \<rparr>"
  have m: "?e \<in> set guides" by (simp add: guides_def)
  then have "guide_card ?e \<in> set (cards (Guides props))" by (simp add: cards_Guides)
  moreover have "card_title (guide_card ?e) = Some ''Transfer''"
    by (simp add: guide_card_title)
  moreover have "card_body (guide_card ?e) = Some ''How to transfer with Klever Blockchain.''"
    by (simp add: guide_card_body)
  moreover have "\<exists>b. card_link (guide_card ?e) = Some b \<and> text_of b = ''Read more'' \<and>
          get_attr ''href'' b = Some (JStr ''/transfer'')"
    by (simp add: guide_card_link)
  ultimately show ?thesis using m by blast
qed

subsection \<open>No failure at run time\<close>

text \<open>
  C8. Run on the constant array, with any props object, \<open>Guides\<close> throws nothing: no
  property read meets \<open>undefined\<close> or \<open>null\<close>, \<open>guides.map\<close> is a call on an array, and
  the value returned is the tree of the typed component.
\<close>

theorem guides_never_throws:
  "Guides_rt props = Inr (Guides props) \<and> (\<forall>e. Guides_rt props \<noteq> Inl e)"
  by (simp add: Guides_rt_def guides_value_def map_rt_entries Guides_def)

subsection \<open>Keys and buttons\<close>

text \<open>
  C9. The hrefs of the entries of the fixed list are pairwise distinct; the key of
  each card is its entry's href, so the keys of the cards are pairwise distinct.
\<close>

theorem guides_keys_distinct:
  "distinct (map href guides) \<and>
   map elem_key (cards (Guides props)) = map (\<lambda>g. Some (JStr (href g))) guides \<and>
   distinct (map elem_key (cards (Guides props)))"
proof -
  have k: "map elem_key (cards (Guides props)) = map (\<lambda>g. Some (JStr (href g))) guides"
    by (simp add: cards_Guides guide_card_key)
  have "distinct (map (\<lambda>g. Some (JStr (href g))) guides)"
    by (simp add: guides_def)
  then show ?thesis using k guides_distinct_fields by simp
qed

text \<open>
  C10. The card of every entry of the fixed list has one \<open>Button\<close>, labelled "Read
  more", with \<open>variant\<close> "text" and \<open>arrow\<close> "right"; its \<open>href\<close> is the entry's href,
  and with the \<open>href\<close> taken away the button is the same element for every card.
\<close>

theorem guides_buttons_uniform:
  "i < length guides \<Longrightarrow>
   \<exists>b. card_link (cards (Guides props) ! i) = Some b \<and>
     text_of b = ''Read more'' \<and>
     get_attr ''variant'' b = Some (JStr ''text'') \<and>
     get_attr ''arrow'' b = Some (JStr ''right'') \<and>
     get_attr ''href'' b = Some (JStr (href (guides ! i))) \<and>
     del_attr ''href'' b =
       Elem (Component ''Button'') None
         [(''variant'', JStr ''text''), (''arrow'', JStr ''right'')]
         [Val (JStr ''Read more'')]"
  by (simp add: cards_Guides guide_card_link)

theorem guides_buttons_uniform_witness:
  "(3::nat) < length guides \<and>
   (\<exists>b. card_link (cards (Guides JUndefined) ! 3) = Some b \<and>
     text_of b = ''Read more'' \<and>
     get_attr ''variant'' b = Some (JStr ''text'') \<and>
     get_attr ''arrow'' b = Some (JStr ''right'') \<and>
     get_attr ''href'' b = Some (JStr ''/create-token''))"
proof -
  have h: "(3::nat) < length guides" by (simp add: guides_def)
  have e: "href (guides ! 3) = ''/create-token''" by (simp add: guides_def)
  from guides_buttons_uniform [OF h, of JUndefined] e h show ?thesis by auto
qed

end
